theory Spec2Isabelle
  imports Complex_Main "HOL-Library.Log_Nat"
begin

section \<open>C floats\<close>

text \<open>
  The batching code of \<^verbatim>\<open>draw_textures.c\<close> compares, divides, adds and multiplies values
  of the C type \<^verbatim>\<open>float\<close>. They are modelled as IEEE 754 binary32 values: not-a-number,
  the two infinities (the flag is the sign, \<open>True\<close> for negative), negative zero, and
  \<open>FVal r\<close> for the number \<open>r\<close>, where \<open>FVal 0\<close> is positive zero. Two values of the
  type are the same value exactly when the two floats have the same bits (payloads of
  not-a-number apart). Arithmetic rounds to nearest, ties to even, as the default rounding
  mode does, with each operation rounded once to binary32.
\<close>

datatype cfloat = FNaN | FInf bool | FNegZero | FVal rat

definition round_half_even :: "rat \<Rightarrow> int" where
  "round_half_even v =
     (let f = \<lfloor>v\<rfloor>; d = v - of_int f
      in if d < 1 / 2 then f else if 1 / 2 < d then f + 1 else if even f then f else f + 1)"

definition ilog2 :: "rat \<Rightarrow> int" where
  \<comment> \<open>the exponent \<open>e\<close> with \<open>2 ^ e \<le> v < 2 ^ (e + 1)\<close>, for positive \<open>v\<close>\<close>
  "ilog2 v =
     (let (p, q) = quotient_of v; e = bitlen p - bitlen q
      in if power_int 2 e \<le> v then e else e - 1)"

definition fround :: "rat \<Rightarrow> cfloat" where
  \<comment> \<open>the binary32 value nearest to a number: 24 significant bits, least unit \<open>2 ^ -149\<close>,
      infinity from \<open>2 ^ 128\<close> on\<close>
  "fround v =
     (if v = 0 then FVal 0
      else let m = \<bar>v\<bar>;
               u = power_int 2 (max (ilog2 m - 23) (- 149));
               w = of_int (round_half_even (m / u)) * u
           in if power_int 2 128 \<le> w then FInf (v < 0)
              else if w = 0 then (if v < 0 then FNegZero else FVal 0)
              else FVal (if v < 0 then - w else w))"

definition float_is_zero :: "cfloat \<Rightarrow> bool" where
  "float_is_zero u = (u = FVal 0 \<or> u = FNegZero)"

definition float_is_inf :: "cfloat \<Rightarrow> bool" where
  "float_is_inf u = (case u of FInf _ \<Rightarrow> True | _ \<Rightarrow> False)"

definition float_sign :: "cfloat \<Rightarrow> bool" where
  "float_sign u = (case u of FNaN \<Rightarrow> False | FInf n \<Rightarrow> n | FNegZero \<Rightarrow> True | FVal v \<Rightarrow> v < 0)"

definition float_val :: "cfloat \<Rightarrow> rat" where
  "float_val u = (case u of FVal v \<Rightarrow> v | _ \<Rightarrow> 0)"

definition signed_zero :: "bool \<Rightarrow> cfloat" where
  "signed_zero n = (if n then FNegZero else FVal 0)"

definition float_eq :: "cfloat \<Rightarrow> cfloat \<Rightarrow> bool" where
  \<comment> \<open>C's \<^verbatim>\<open>u == v\<close>; \<^verbatim>\<open>u != v\<close> is its negation\<close>
  "float_eq u v = (u \<noteq> FNaN \<and> v \<noteq> FNaN \<and> (u = v \<or> (float_is_zero u \<and> float_is_zero v)))"

definition float_gt_zero :: "cfloat \<Rightarrow> bool" where
  \<comment> \<open>C's \<^verbatim>\<open>u > 0\<close>\<close>
  "float_gt_zero u = (case u of FInf n \<Rightarrow> \<not> n | FVal v \<Rightarrow> 0 < v | _ \<Rightarrow> False)"

definition float_le_zero :: "cfloat \<Rightarrow> bool" where
  \<comment> \<open>C's \<^verbatim>\<open>u <= 0\<close>\<close>
  "float_le_zero u = (case u of FNaN \<Rightarrow> False | FInf n \<Rightarrow> n | FNegZero \<Rightarrow> True | FVal v \<Rightarrow> v \<le> 0)"

definition float_of_int :: "int \<Rightarrow> cfloat" where
  \<comment> \<open>the cast \<^verbatim>\<open>(float) n\<close>\<close>
  "float_of_int n = fround (of_int n)"

definition fadd :: "cfloat \<Rightarrow> cfloat \<Rightarrow> cfloat" where
  "fadd u v =
     (if u = FNaN \<or> v = FNaN then FNaN
      else if float_is_inf u then (if float_is_inf v \<and> float_sign u \<noteq> float_sign v then FNaN else u)
      else if float_is_inf v then v
      else let w = float_val u + float_val v
           in if w = 0 then signed_zero (float_sign u \<and> float_sign v) else fround w)"

definition fmul :: "cfloat \<Rightarrow> cfloat \<Rightarrow> cfloat" where
  "fmul u v =
     (if u = FNaN \<or> v = FNaN then FNaN
      else let n = (float_sign u \<noteq> float_sign v)
           in if float_is_inf u \<or> float_is_inf v
              then (if float_is_zero u \<or> float_is_zero v then FNaN else FInf n)
              else if float_is_zero u \<or> float_is_zero v then signed_zero n
              else fround (float_val u * float_val v))"

definition fdiv :: "cfloat \<Rightarrow> cfloat \<Rightarrow> cfloat" where
  "fdiv u v =
     (if u = FNaN \<or> v = FNaN then FNaN
      else let n = (float_sign u \<noteq> float_sign v)
           in if float_is_inf u then (if float_is_inf v then FNaN else FInf n)
              else if float_is_inf v then signed_zero n
              else if float_is_zero v then (if float_is_zero u then FNaN else FInf n)
              else if float_is_zero u then signed_zero n
              else fround (float_val u / float_val v))"

section \<open>Data of the collaborators\<close>

text \<open>
  The headers \<^verbatim>\<open>core/rect_2d.h\<close>, \<^verbatim>\<open>core/rgba.h\<close>, \<^verbatim>\<open>core/tealeaf_context.h\<close>,
  \<^verbatim>\<open>core/tealeaf_shaders.h\<close> and \<^verbatim>\<open>platform/gl.h\<close> are not among the sources. The
  rectangle and the colour are taken with \<^verbatim>\<open>float\<close> fields, as lines 97 to 100 (which cast
  only the \<^verbatim>\<open>int\<close> operand) and lines 208 to 216 use them; their fields \<^verbatim>\<open>x\<close>,
  \<^verbatim>\<open>y\<close>, \<^verbatim>\<open>width\<close>, \<^verbatim>\<open>height\<close> and \<^verbatim>\<open>r\<close>, \<^verbatim>\<open>g\<close>, \<^verbatim>\<open>b\<close>,
  \<^verbatim>\<open>a\<close> carry a prefix here.
\<close>

record rect_2d =
  rect_x :: cfloat
  rect_y :: cfloat
  rect_width :: cfloat
  rect_height :: cfloat

record rgba =
  rgba_r :: cfloat
  rgba_g :: cfloat
  rgba_b :: cfloat
  rgba_a :: cfloat

text \<open>The eight numbers \<^verbatim>\<open>matrix_3x3_multiply\<close> stores through its out parameters.\<close>

record corners =
  x1 :: cfloat
  y1 :: cfloat
  x2 :: cfloat
  y2 :: cfloat
  x3 :: cfloat
  y3 :: cfloat
  x4 :: cfloat
  y4 :: cfloat

definition rgba_equals :: "rgba \<Rightarrow> rgba \<Rightarrow> bool" where
  \<comment> \<open>Modelled from the spec: \<^verbatim>\<open>rgba_equals\<close> is defined outside the sources; section 6
      gives it as the exact, component-wise comparison of two colours.\<close>
  "rgba_equals c d =
     (float_eq (rgba_r c) (rgba_r d) \<and> float_eq (rgba_g c) (rgba_g d) \<and>
      float_eq (rgba_b c) (rgba_b d) \<and> float_eq (rgba_a c) (rgba_a d))"

datatype blend_factor =
  GL_ZERO | GL_ONE | GL_SRC_ALPHA | GL_ONE_MINUS_SRC_ALPHA | GL_DST_ALPHA | GL_ONE_MINUS_DST_ALPHA

datatype shader = PRIMARY_SHADER | LINEAR_ADD_SHADER

datatype uniform = draw_color | add_color

datatype attrib = vertex_coords | tex_coords

datatype tex_pname =
  GL_TEXTURE_MIN_FILTER | GL_TEXTURE_MAG_FILTER | GL_TEXTURE_WRAP_S | GL_TEXTURE_WRAP_T

datatype tex_param = GL_LINEAR | GL_NEAREST | GL_CLAMP_TO_EDGE

text \<open>
  What the code does to the outside is the sequence of its calls to the GPU and to the
  shader module. \<open>flush_entered\<close> marks an entry into \<^verbatim>\<open>draw_textures_flush\<close>, so
  that a call that finds nothing to draw is still seen. The arguments that are literals
  in the source are part of the constructor: texture unit 0 and target
  \<^verbatim>\<open>GL_TEXTURE_2D\<close>; two \<^verbatim>\<open>GL_FLOAT\<close> components, not normalised, for an attribute,
  with the stride in bytes and the offset into \<^verbatim>\<open>buffer\<close> in floats; triangles from
  vertex 0 for the draw, with the number of vertices.
\<close>

datatype call =
    flush_entered
  | glBlendFunc blend_factor blend_factor
  | tealeaf_shaders_bind shader
  | glUniform4f uniform cfloat cfloat cfloat cfloat
  | glActiveTexture_0
  | glBindTexture_2D int
  | glTexParameterf_2D tex_pname tex_param
  | glVertexAttribPointer attrib int nat
  | glDrawArrays_TRIANGLES int

text \<open>
  The constants and the function that the missing headers declare are parameters: the
  enumerators of the composite operations and of the filters, the switch
  \<^verbatim>\<open>use_single_shader\<close>, and the transform of a rectangle by a matrix (of a type
  \<open>'m\<close>).
\<close>

record 'm env =
  use_single_shader :: bool
  source_atop :: int
  source_in :: int
  source_out :: int
  source_over :: int
  destination_atop :: int
  destination_in :: int
  destination_out :: int
  destination_over :: int
  lighter :: int
  x_or :: int
  copy :: int
  FILTER_NONE :: int
  FILTER_LINEAR_ADD :: int
  FILTER_MULTIPLY :: int
  matrix_3x3_multiply :: "'m \<Rightarrow> rect_2d \<Rightarrow> corners"

definition case_labels :: "'m env \<Rightarrow> int list" where
  \<comment> \<open>the labels of the switch of line 148, which C requires to be distinct\<close>
  "case_labels E =
     [source_atop E, source_in E, source_out E, source_over E, destination_atop E,
      destination_in E, destination_out E, destination_over E, lighter E, x_or E, copy E]"

section \<open>The batch\<close>

definition MAX_BUFFER_SIZE :: int where
  "MAX_BUFFER_SIZE = 1024"

record bufobj =
  srcX1 :: cfloat
  srcY1 :: cfloat
  destX1 :: cfloat
  destY1 :: cfloat
  srcX2 :: cfloat
  srcY2 :: cfloat
  destX2 :: cfloat
  destY2 :: cfloat
  srcX3 :: cfloat
  srcY3 :: cfloat
  destX3 :: cfloat
  destY3 :: cfloat

text \<open>
  The static variables of lines 32 to 53, and the calls made so far. A C \<^verbatim>\<open>int\<close> is
  an integer here: in the states that the two functions reach the buffer length stays
  below 1024, so that neither \<^verbatim>\<open>bufSize + 2\<close> nor \<^verbatim>\<open>3 * bufSize\<close> overflows.
\<close>

record statics =
  lastName :: int
  bufSize :: int
  lastOpacity :: cfloat
  last_composite_op :: int
  last_filter_type :: int
  last_filter_color :: rgba
  buffer :: "bufobj list"
  trace :: "call list"

definition zero_bufobj :: bufobj where
  "zero_bufobj =
     \<lparr>srcX1 = FVal 0, srcY1 = FVal 0, destX1 = FVal 0, destY1 = FVal 0,
      srcX2 = FVal 0, srcY2 = FVal 0, destX2 = FVal 0, destY2 = FVal 0,
      srcX3 = FVal 0, srcY3 = FVal 0, destX3 = FVal 0, destY3 = FVal 0\<rparr>"

definition init_statics :: statics where
  "init_statics =
     \<lparr>lastName = - 1, bufSize = 0, lastOpacity = FVal 1, last_composite_op = 0,
      last_filter_type = 0,
      last_filter_color = \<lparr>rgba_r = FVal 0, rgba_g = FVal 0, rgba_b = FVal 0, rgba_a = FVal 0\<rparr>,
      buffer = replicate (nat MAX_BUFFER_SIZE) zero_bufobj, trace = []\<rparr>"

text \<open>The arguments of \<^verbatim>\<open>draw_textures_item\<close>; the colour is passed by value.\<close>

record 'm item_args =
  model_view :: 'm
  name :: int
  src_width :: int
  src_height :: int
  orig_width :: int
  orig_height :: int
  src :: rect_2d
  dest :: rect_2d
  clip :: rect_2d
  opacity :: cfloat
  composite_op :: int
  filter_color :: rgba
  filter_type :: int

subsection \<open>\<^verbatim>\<open>draw_textures_flush\<close>\<close>

definition blend_factors :: "'m env \<Rightarrow> int \<Rightarrow> blend_factor \<times> blend_factor" where
  \<comment> \<open>the switch of lines 148 to 196: \<^verbatim>\<open>(sfactor, dfactor)\<close>\<close>
  "blend_factors E c =
     (if c = source_atop E then (GL_DST_ALPHA, GL_ONE_MINUS_SRC_ALPHA)
      else if c = source_in E then (GL_DST_ALPHA, GL_ZERO)
      else if c = source_out E then (GL_ONE_MINUS_DST_ALPHA, GL_ZERO)
      else if c = source_over E then (GL_ONE, GL_ONE_MINUS_SRC_ALPHA)
      else if c = destination_atop E then (GL_DST_ALPHA, GL_SRC_ALPHA)
      else if c = destination_in E then (GL_ZERO, GL_SRC_ALPHA)
      else if c = destination_out E then (GL_ONE_MINUS_SRC_ALPHA, GL_ONE_MINUS_SRC_ALPHA)
      else if c = destination_over E then (GL_DST_ALPHA, GL_SRC_ALPHA)
      else if c = lighter E \<or> c = x_or E \<or> c = copy E then (GL_ONE, GL_ONE_MINUS_SRC_ALPHA)
      else (GL_ONE, GL_ONE_MINUS_SRC_ALPHA))"

definition shader_calls :: "'m env \<Rightarrow> statics \<Rightarrow> call list" where
  \<comment> \<open>lines 199 to 218\<close>
  "shader_calls E s =
     (let p = lastOpacity s; c = last_filter_color s
      in if use_single_shader E
         then [tealeaf_shaders_bind PRIMARY_SHADER, glUniform4f draw_color p p p p]
         else if last_filter_type s = FILTER_NONE E
         then [tealeaf_shaders_bind PRIMARY_SHADER, glUniform4f draw_color p p p p]
         else if last_filter_type s = FILTER_LINEAR_ADD E
         then [tealeaf_shaders_bind LINEAR_ADD_SHADER,
               glUniform4f add_color (fmul (rgba_r c) (rgba_a c)) (fmul (rgba_g c) (rgba_a c))
                 (fmul (rgba_b c) (rgba_a c)) (FVal 0),
               glUniform4f draw_color p p p p]
         else if last_filter_type s = FILTER_MULTIPLY E
         then [tealeaf_shaders_bind PRIMARY_SHADER,
               glUniform4f draw_color (fmul (rgba_r c) p) (fmul (rgba_g c) p) (fmul (rgba_b c) p) p]
         else [])"

definition texture_calls :: "statics \<Rightarrow> call list" where
  \<comment> \<open>lines 220 to 232; the stride is \<^verbatim>\<open>sizeof(float) * 4\<close>\<close>
  "texture_calls s =
     [glActiveTexture_0,
      glBindTexture_2D (lastName s),
      glTexParameterf_2D GL_TEXTURE_MIN_FILTER GL_LINEAR,
      glTexParameterf_2D GL_TEXTURE_MAG_FILTER GL_NEAREST,
      glTexParameterf_2D GL_TEXTURE_WRAP_S GL_CLAMP_TO_EDGE,
      glTexParameterf_2D GL_TEXTURE_WRAP_T GL_CLAMP_TO_EDGE,
      glVertexAttribPointer vertex_coords 16 2,
      glVertexAttribPointer tex_coords 16 0,
      glDrawArrays_TRIANGLES (3 * bufSize s)]"

definition render_calls :: "'m env \<Rightarrow> statics \<Rightarrow> call list" where
  \<comment> \<open>the body of \<^verbatim>\<open>if (lastOpacity > 0)\<close>, lines 145 to 239\<close>
  "render_calls E s =
     (let (sfactor, dfactor) = blend_factors E (last_composite_op s)
      in glBlendFunc sfactor dfactor # shader_calls E s @ texture_calls s)"

definition draw_textures_flush :: "'m env \<Rightarrow> statics \<Rightarrow> statics" where
  "draw_textures_flush E s0 =
     (let s = s0\<lparr>trace := trace s0 @ [flush_entered]\<rparr>
      in if bufSize s \<le> 0 then s
         else let s' = (if float_gt_zero (lastOpacity s)
                        then s\<lparr>trace := trace s @ render_calls E s\<rparr> else s)
              in s'\<lparr>bufSize := 0\<rparr>)"

subsection \<open>\<^verbatim>\<open>draw_textures_item\<close>\<close>

definition flush_needed :: "'m item_args \<Rightarrow> statics \<Rightarrow> bool" where
  \<comment> \<open>the condition of line 80\<close>
  "flush_needed q s =
     (name q \<noteq> lastName s \<or> bufSize s + 2 \<ge> MAX_BUFFER_SIZE \<or>
      \<not> float_eq (lastOpacity s) (opacity q) \<or> composite_op q \<noteq> last_composite_op s \<or>
      \<not> rgba_equals (last_filter_color s) (filter_color q) \<or>
      last_filter_type s \<noteq> filter_type q)"

definition adopt :: "'m item_args \<Rightarrow> statics \<Rightarrow> statics" where
  \<comment> \<open>lines 83 to 90\<close>
  "adopt q s =
     s\<lparr>lastName := name q, lastOpacity := opacity q, last_composite_op := composite_op q,
       last_filter_color :=
         (last_filter_color s)\<lparr>rgba_r := rgba_r (filter_color q), rgba_g := rgba_g (filter_color q),
           rgba_b := rgba_b (filter_color q), rgba_a := rgba_a (filter_color q)\<rparr>,
       last_filter_type := filter_type q\<rparr>"

definition first_triangle :: "'m env \<Rightarrow> 'm item_args \<Rightarrow> bufobj" where
  \<comment> \<open>what lines 96 to 121 store in \<^verbatim>\<open>*o\<close>\<close>
  "first_triangle E q =
     (let sMin = fdiv (rect_x (src q)) (float_of_int (src_width q));
          tMin = fdiv (rect_y (src q)) (float_of_int (src_height q));
          sMax = fdiv (fadd (rect_x (src q)) (rect_width (src q))) (float_of_int (src_width q));
          tMax = fdiv (fadd (rect_y (src q)) (rect_height (src q))) (float_of_int (src_height q));
          c = matrix_3x3_multiply E (model_view q) (dest q)
      in \<lparr>srcX1 = sMin, srcY1 = tMax, destX1 = x4 c, destY1 = y4 c,
          srcX2 = sMax, srcY2 = tMax, destX2 = x3 c, destY2 = y3 c,
          srcX3 = sMin, srcY3 = tMin, destX3 = x1 c, destY3 = y1 c\<rparr>)"

definition second_triangle :: "'m env \<Rightarrow> 'm item_args \<Rightarrow> bufobj" where
  \<comment> \<open>what lines 96 to 127 store in \<^verbatim>\<open>*o2\<close>\<close>
  "second_triangle E q =
     (let sMin = fdiv (rect_x (src q)) (float_of_int (src_width q));
          tMin = fdiv (rect_y (src q)) (float_of_int (src_height q));
          sMax = fdiv (fadd (rect_x (src q)) (rect_width (src q))) (float_of_int (src_width q));
          tMax = fdiv (fadd (rect_y (src q)) (rect_height (src q))) (float_of_int (src_height q));
          c = matrix_3x3_multiply E (model_view q) (dest q)
      in \<lparr>srcX1 = sMax, srcY1 = tMax, destX1 = x3 c, destY1 = y3 c,
          srcX2 = sMax, srcY2 = tMin, destX2 = x2 c, destY2 = y2 c,
          srcX3 = sMin, srcY3 = tMin, destX3 = x1 c, destY3 = y1 c\<rparr>)"

definition append_quad :: "'m env \<Rightarrow> 'm item_args \<Rightarrow> statics \<Rightarrow> statics option" where
  \<comment> \<open>lines 93 to 127: \<^verbatim>\<open>o\<close> is slot \<^verbatim>\<open>bufSize - 2\<close> and \<^verbatim>\<open>o2\<close> the next one. A store
      outside \<^verbatim>\<open>buffer\<close> is undefined in C: the result is \<open>None\<close>.\<close>
  "append_quad E q s =
     (let s' = s\<lparr>bufSize := bufSize s + 2\<rparr>; i = bufSize s' - 2
      in if 0 \<le> i \<and> i + 1 < MAX_BUFFER_SIZE
         then Some (s'\<lparr>buffer := (buffer s')[nat i := first_triangle E q,
                                              nat (i + 1) := second_triangle E q]\<rparr>)
         else None)"

definition draw_textures_item :: "'m env \<Rightarrow> 'm item_args \<Rightarrow> statics \<Rightarrow> statics option" where
  "draw_textures_item E q s =
     (if float_eq (rect_height (clip q)) (FVal 0) \<or> float_eq (rect_width (clip q)) (FVal 0)
      then Some s
      else append_quad E q
             (if flush_needed q s then adopt q (draw_textures_flush E s) else s))"

subsection \<open>Runs, and what is observed of them\<close>

definition flush_calls :: "'m env \<Rightarrow> statics \<Rightarrow> call list" where
  \<comment> \<open>the calls that one \<^verbatim>\<open>draw_textures_flush\<close> from state \<open>s\<close> makes\<close>
  "flush_calls E s = drop (length (trace s)) (trace (draw_textures_flush E s))"

definition flush_count :: "statics \<Rightarrow> nat" where
  \<comment> \<open>how often \<^verbatim>\<open>draw_textures_flush\<close> has been entered\<close>
  "flush_count s = count_list (trace s) flush_entered"

definition blend_calls :: "call list \<Rightarrow> call list" where
  "blend_calls cs = filter (\<lambda>c. case c of glBlendFunc _ _ \<Rightarrow> True | _ \<Rightarrow> False) cs"

definition gpu_calls :: "call list \<Rightarrow> call list" where
  \<comment> \<open>the calls to the collaborators, without the entry marks\<close>
  "gpu_calls cs = filter (\<lambda>c. c \<noteq> flush_entered) cs"

definition degenerate :: "rect_2d \<Rightarrow> bool" where
  \<comment> \<open>a clip rectangle of width 0 or height 0, by C's \<^verbatim>\<open>==\<close>\<close>
  "degenerate c = (float_eq (rect_width c) (FVal 0) \<or> float_eq (rect_height c) (FVal 0))"

fun draw_items :: "'m env \<Rightarrow> 'm item_args list \<Rightarrow> statics \<Rightarrow> statics option" where
  "draw_items E [] s = Some s"
| "draw_items E (q # qs) s =
     (case draw_textures_item E q s of None \<Rightarrow> None | Some s' \<Rightarrow> draw_items E qs s')"

text \<open>The states that calls of the two functions reach from the initial one.\<close>

inductive reachable :: "'m env \<Rightarrow> statics \<Rightarrow> bool" for E :: "'m env" where
  reach_init: "reachable E init_statics"
| reach_item: "reachable E s \<Longrightarrow> draw_textures_item E q s = Some s' \<Longrightarrow> reachable E s'"
| reach_flush: "reachable E s \<Longrightarrow> reachable E (draw_textures_flush E s)"

subsection \<open>An instance, for concrete runs\<close>

definition example_env :: "unit env" where
  "example_env =
     \<lparr>use_single_shader = False,
      source_atop = 1, source_in = 2, source_out = 3, source_over = 4, destination_atop = 5,
      destination_in = 6, destination_out = 7, destination_over = 8, lighter = 9, x_or = 10,
      copy = 11,
      FILTER_NONE = 0, FILTER_LINEAR_ADD = 1, FILTER_MULTIPLY = 2,
      matrix_3x3_multiply = (\<lambda>_ d.
        \<lparr>x1 = rect_x d, y1 = rect_y d,
         x2 = fadd (rect_x d) (rect_width d), y2 = rect_y d,
         x3 = rect_x d, y3 = fadd (rect_y d) (rect_height d),
         x4 = fadd (rect_x d) (rect_width d), y4 = fadd (rect_y d) (rect_height d)\<rparr>)\<rparr>"

definition example_item :: "unit item_args" where
  "example_item =
     \<lparr>model_view = (), name = 7, src_width = 100, src_height = 200,
      orig_width = 100, orig_height = 200,
      src = \<lparr>rect_x = FVal 10, rect_y = FVal 20, rect_width = FVal 30, rect_height = FVal 40\<rparr>,
      dest = \<lparr>rect_x = FVal 0, rect_y = FVal 0, rect_width = FVal 30, rect_height = FVal 40\<rparr>,
      clip = \<lparr>rect_x = FVal 0, rect_y = FVal 0, rect_width = FVal 640, rect_height = FVal 480\<rparr>,
      opacity = FVal 1, composite_op = 4,
      filter_color = \<lparr>rgba_r = FVal 0, rgba_g = FVal 0, rgba_b = FVal 0, rgba_a = FVal 0\<rparr>,
      filter_type = 0\<rparr>"

definition example_batch :: statics where
  \<comment> \<open>the state after \<open>example_item\<close> has been submitted to the initial state\<close>
  "example_batch =
     (adopt example_item (draw_textures_flush example_env init_statics))
       \<lparr>bufSize := 2,
        buffer := (buffer init_statics)[0 := first_triangle example_env example_item,
                                        1 := second_triangle example_env example_item]\<rparr>"

definition zero_opacity_item :: "unit item_args" where
  "zero_opacity_item = example_item\<lparr>opacity := FVal 0\<rparr>"

definition zero_opacity_batch :: statics where
  \<comment> \<open>the state after \<open>zero_opacity_item\<close> has been submitted to the initial state\<close>
  "zero_opacity_batch =
     (adopt zero_opacity_item (draw_textures_flush example_env init_statics))
       \<lparr>bufSize := 2,
        buffer := (buffer init_statics)[0 := first_triangle example_env zero_opacity_item,
                                        1 := second_triangle example_env zero_opacity_item]\<rparr>"

definition neg_zero_item :: "unit item_args" where
  "neg_zero_item = example_item\<lparr>opacity := FNegZero\<rparr>"

definition dropped_item :: "unit item_args" where
  \<comment> \<open>a request of another texture whose clip rectangle has width 0\<close>
  "dropped_item =
     example_item\<lparr>name := 9,
       clip := \<lparr>rect_x = FVal 0, rect_y = FVal 0, rect_width = FVal 0, rect_height = FVal 480\<rparr>\<rparr>"

subsection \<open>Conditions\<close>

definition appended :: "'m item_args list \<Rightarrow> nat" where
  \<comment> \<open>how many requests of a run get past the guard of line 76\<close>
  "appended qs = length (filter (\<lambda>q. \<not> degenerate (clip q)) qs)"


definition same_batch :: "'m item_args \<Rightarrow> statics \<Rightarrow> bool" where
  \<comment> \<open>the five fields of a request are those of the batch, by the comparisons of line 80\<close>
  "same_batch q s =
     (name q = lastName s \<and> float_eq (lastOpacity s) (opacity q) \<and>
      composite_op q = last_composite_op s \<and>
      rgba_equals (last_filter_color s) (filter_color q) \<and>
      last_filter_type s = filter_type q)"

definition tuple_differs :: "'m item_args \<Rightarrow> 'm item_args \<Rightarrow> bool" where
  \<comment> \<open>two requests differ in one of the five fields, by the same comparisons\<close>
  "tuple_differs p q =
     (name p \<noteq> name q \<or> \<not> float_eq (opacity p) (opacity q) \<or>
      composite_op p \<noteq> composite_op q \<or>
      \<not> rgba_equals (filter_color p) (filter_color q) \<or>
      filter_type p \<noteq> filter_type q)"

definition spec_flush_condition :: "'m item_args \<Rightarrow> statics \<Rightarrow> bool" where
  \<comment> \<open>the flush condition in the words of section 4.1 of the specification, where the
      opacity differs when its bits do\<close>
  "spec_flush_condition q s =
     (name q \<noteq> lastName s \<or> bufSize s + 2 \<ge> MAX_BUFFER_SIZE \<or>
      lastOpacity s \<noteq> opacity q \<or> composite_op q \<noteq> last_composite_op s \<or>
      \<not> rgba_equals (last_filter_color s) (filter_color q) \<or>
      last_filter_type s \<noteq> filter_type q)"

definition decimals4 :: "cfloat \<Rightarrow> int option" where
  \<comment> \<open>a finite value to four decimals, in units of 0.0001\<close>
  "decimals4 u =
     (case u of FVal v \<Rightarrow> Some \<lfloor>v * 10000 + 1 / 2\<rfloor> | FNegZero \<Rightarrow> Some 0 | _ \<Rightarrow> None)"

section \<open>Checks of the float arithmetic\<close>

text \<open>
  Known binary32 results: \<open>1 / 3\<close> is \<open>11184811 / 2 ^ 25\<close>; \<open>2 ^ 24 + 1\<close> lies
  half way between two floats and goes to the even one; half the least positive float
  goes to zero, and one and a half of it to twice it; the largest float is
  \<open>2 ^ 128 - 2 ^ 104\<close>, and from half a unit above it the result is infinity.
\<close>

lemma fround_examples:
  "fdiv (FVal 1) (FVal 3) = FVal (11184811 / 33554432)"
  "float_of_int 16777217 = FVal 16777216"
  "float_of_int (- 16777219) = FVal (- 16777220)"
  "fround (1 / 2 ^ 150) = FVal 0"
  "fround (- 3 / 2 ^ 150) = FVal (- 1 / 2 ^ 148)"
  "fround (2 ^ 128 - 2 ^ 104) = FVal (2 ^ 128 - 2 ^ 104)"
  "fround (2 ^ 128 - 2 ^ 103 - 1) = FVal (2 ^ 128 - 2 ^ 104)"
  "fround (2 ^ 128 - 2 ^ 103) = FInf False"
  "fmul (FVal (1 / 2 ^ 100)) (FVal (- 1 / 2 ^ 100)) = FNegZero"
  "fadd (FVal 1) (FVal (- 1)) = FVal 0"
  "fdiv (FVal 1) FNegZero = FInf True"
  "fdiv (FVal 0) (FVal 0) = FNaN"
  by code_simp+

lemma float_eq_zeros: "float_eq (FVal 0) FNegZero" "\<not> float_eq FNaN FNaN"
  by (simp_all add: float_eq_def float_is_zero_def)

section \<open>Flush\<close>

lemma shader_calls_trace [simp]: "shader_calls E (s\<lparr>trace := t\<rparr>) = shader_calls E s"
  by (simp add: shader_calls_def Let_def)

lemma texture_calls_trace [simp]: "texture_calls (s\<lparr>trace := t\<rparr>) = texture_calls s"
  by (simp add: texture_calls_def)

lemma render_calls_trace [simp]: "render_calls E (s\<lparr>trace := t\<rparr>) = render_calls E s"
  by (simp add: render_calls_def)

lemma flush_trace:
  "trace (draw_textures_flush E s) =
     trace s @ flush_entered #
       (if 0 < bufSize s \<and> float_gt_zero (lastOpacity s) then render_calls E s else [])"
  by (simp add: draw_textures_flush_def Let_def)

lemma flush_calls_eq:
  "flush_calls E s =
     flush_entered #
       (if 0 < bufSize s \<and> float_gt_zero (lastOpacity s) then render_calls E s else [])"
  by (simp add: flush_calls_def flush_trace)

lemma flush_bufSize:
  "bufSize (draw_textures_flush E s) = (if bufSize s \<le> 0 then bufSize s else 0)"
  by (simp add: draw_textures_flush_def Let_def)

lemma flush_fields:
  "lastName (draw_textures_flush E s) = lastName s"
  "lastOpacity (draw_textures_flush E s) = lastOpacity s"
  "last_composite_op (draw_textures_flush E s) = last_composite_op s"
  "last_filter_color (draw_textures_flush E s) = last_filter_color s"
  "last_filter_type (draw_textures_flush E s) = last_filter_type s"
  "buffer (draw_textures_flush E s) = buffer s"
  by (simp_all add: draw_textures_flush_def Let_def)

lemma le_zero_not_gt_zero: "float_le_zero u \<Longrightarrow> \<not> float_gt_zero u"
  by (cases u) (auto simp: float_le_zero_def float_gt_zero_def)

lemma example_batch_reached:
  "draw_textures_item example_env example_item init_statics = Some example_batch"
  by (simp add: draw_textures_item_def append_quad_def example_batch_def flush_needed_def
      example_item_def init_statics_def float_eq_def float_is_zero_def adopt_def
      draw_textures_flush_def MAX_BUFFER_SIZE_def Let_def)

text \<open>
  C9. A flush that finds the buffer empty (length at most 0) changes nothing and calls
  nobody: the state it returns is the one it got, with only the entry recorded. A draw
  call that a flush makes has a positive number of vertices. A flush that follows a flush
  directly is such a call without effect.
\<close>

theorem flush_empty_is_noop:
  "(bufSize s \<le> 0 \<longrightarrow>
      draw_textures_flush E s = s\<lparr>trace := trace s @ [flush_entered]\<rparr> \<and>
      gpu_calls (flush_calls E s) = []) \<and>
   (\<forall>n. glDrawArrays_TRIANGLES n \<in> set (flush_calls E s) \<longrightarrow> 0 < n) \<and>
   draw_textures_flush E (draw_textures_flush E s) =
     (draw_textures_flush E s)\<lparr>trace := trace (draw_textures_flush E s) @ [flush_entered]\<rparr> \<and>
   gpu_calls (flush_calls E (draw_textures_flush E s)) = []"
proof -
  have empty: "draw_textures_flush E t = t\<lparr>trace := trace t @ [flush_entered]\<rparr>"
    if "bufSize t \<le> 0" for t
    using that by (simp add: draw_textures_flush_def Let_def)
  have after: "bufSize (draw_textures_flush E s) \<le> 0"
    by (simp add: flush_bufSize)
  have draws: "0 < n" if "glDrawArrays_TRIANGLES n \<in> set (flush_calls E s)" for n
    using that
    by (auto simp: flush_calls_eq render_calls_def shader_calls_def texture_calls_def Let_def
        case_prod_beta split: if_splits)
  have quiet: "gpu_calls (flush_calls E t) = []" if "bufSize t \<le> 0" for t
    using that by (simp add: flush_calls_eq gpu_calls_def)
  show ?thesis
    using empty [of s] empty [OF after] quiet [of s] quiet [OF after] draws by blast
qed

theorem flush_empty_is_noop_witness:
  "bufSize init_statics \<le> 0 \<and>
   draw_textures_flush example_env init_statics = init_statics\<lparr>trace := [flush_entered]\<rparr> \<and>
   glDrawArrays_TRIANGLES 6 \<in> set (flush_calls example_env example_batch) \<and> (0::int) < 6"
proof -
  have "glDrawArrays_TRIANGLES 6 \<in> set (flush_calls example_env example_batch)"
    by (simp add: flush_calls_eq example_batch_def adopt_def example_item_def
        float_gt_zero_def render_calls_def texture_calls_def case_prod_beta)
  then show ?thesis
    using flush_empty_is_noop [of init_statics example_env]
      flush_empty_is_noop [of example_batch example_env]
    by (simp add: init_statics_def)
qed

text \<open>
  C7. A flush that finds a batch in the buffer whose opacity is at most 0 sets the buffer
  length to zero and does no GPU work: it sets no blend function, binds no shader and no
  texture, and draws nothing. Nothing but the length changes.
\<close>

theorem flush_transparent_batch:
  assumes "0 < bufSize s" and "float_le_zero (lastOpacity s)"
  shows "draw_textures_flush E s = s\<lparr>bufSize := 0, trace := trace s @ [flush_entered]\<rparr> \<and>
         gpu_calls (flush_calls E s) = []"
proof -
  have dark: "\<not> float_gt_zero (lastOpacity s)"
    using assms(2) by (rule le_zero_not_gt_zero)
  have "draw_textures_flush E s = s\<lparr>bufSize := 0, trace := trace s @ [flush_entered]\<rparr>"
    using assms(1) dark by (simp add: draw_textures_flush_def Let_def)
  moreover have "gpu_calls (flush_calls E s) = []"
    using dark by (simp add: flush_calls_eq gpu_calls_def)
  ultimately show ?thesis ..
qed

theorem flush_transparent_batch_witness:
  "0 < bufSize (example_batch\<lparr>lastOpacity := FVal 0\<rparr>) \<and>
   float_le_zero (lastOpacity (example_batch\<lparr>lastOpacity := FVal 0\<rparr>)) \<and>
   bufSize (draw_textures_flush example_env (example_batch\<lparr>lastOpacity := FVal 0\<rparr>)) = 0 \<and>
   trace (draw_textures_flush example_env (example_batch\<lparr>lastOpacity := FVal 0\<rparr>)) =
     [flush_entered, flush_entered]"
proof -
  have pos: "0 < bufSize (example_batch\<lparr>lastOpacity := FVal 0\<rparr>)"
    by (simp add: example_batch_def)
  have dark: "float_le_zero (lastOpacity (example_batch\<lparr>lastOpacity := FVal 0\<rparr>))"
    by (simp add: float_le_zero_def)
  have "trace example_batch = [flush_entered]"
    by (simp add: example_batch_def adopt_def flush_trace init_statics_def)
  then show ?thesis
    using pos dark flush_transparent_batch [OF pos dark, of example_env] by simp
qed

text \<open>
  C8. A flush leaves the texture handle, the opacity, the composite operation, the filter
  colour and the filter kind of the batch as they are, and the slots of the buffer too:
  of the static variables it changes the buffer length only, to zero. A later submit
  that changes one of the five fields is one whose flush condition holds.
\<close>

theorem flush_keeps_batch_state:
  "lastName (draw_textures_flush E s) = lastName s \<and>
   lastOpacity (draw_textures_flush E s) = lastOpacity s \<and>
   last_composite_op (draw_textures_flush E s) = last_composite_op s \<and>
   last_filter_color (draw_textures_flush E s) = last_filter_color s \<and>
   last_filter_type (draw_textures_flush E s) = last_filter_type s \<and>
   buffer (draw_textures_flush E s) = buffer s \<and>
   (0 \<le> bufSize s \<longrightarrow> bufSize (draw_textures_flush E s) = 0) \<and>
   (\<forall>q t. draw_textures_item E q (draw_textures_flush E s) = Some t \<and>
      (lastName t \<noteq> lastName s \<or> lastOpacity t \<noteq> lastOpacity s \<or>
       last_composite_op t \<noteq> last_composite_op s \<or>
       last_filter_color t \<noteq> last_filter_color s \<or>
       last_filter_type t \<noteq> last_filter_type s) \<longrightarrow>
      \<not> degenerate (clip q) \<and> flush_needed q (draw_textures_flush E s))"
proof -
  have later: "\<not> degenerate (clip q) \<and> flush_needed q (draw_textures_flush E s)"
    if "draw_textures_item E q (draw_textures_flush E s) = Some t"
      and "lastName t \<noteq> lastName s \<or> lastOpacity t \<noteq> lastOpacity s \<or>
           last_composite_op t \<noteq> last_composite_op s \<or>
           last_filter_color t \<noteq> last_filter_color s \<or>
           last_filter_type t \<noteq> last_filter_type s"
    for q t
    using that
    by (auto simp: draw_textures_item_def append_quad_def degenerate_def flush_fields Let_def
        split: if_splits)
  show ?thesis
    using later by (simp add: flush_fields flush_bufSize)
qed

theorem flush_keeps_batch_state_witness:
  "0 \<le> bufSize example_batch \<and>
   bufSize (draw_textures_flush example_env example_batch) = 0 \<and>
   lastName (draw_textures_flush example_env example_batch) = 7 \<and>
   draw_textures_item example_env (example_item\<lparr>name := 8\<rparr>)
     (draw_textures_flush example_env example_batch) \<noteq> None \<and>
   lastName (the (draw_textures_item example_env (example_item\<lparr>name := 8\<rparr>)
     (draw_textures_flush example_env example_batch))) \<noteq> lastName example_batch \<and>
   flush_needed (example_item\<lparr>name := 8\<rparr>) (draw_textures_flush example_env example_batch)"
proof -
  let ?s = "draw_textures_flush example_env example_batch"
  let ?q = "example_item\<lparr>name := 8\<rparr>"
  have len: "0 \<le> bufSize example_batch" and handle: "lastName example_batch = 7"
    by (simp_all add: example_batch_def adopt_def example_item_def)
  have clip: "\<not> degenerate (clip ?q)"
    by (simp add: degenerate_def example_item_def float_eq_def float_is_zero_def)
  have need: "flush_needed ?q ?s"
    by (simp add: flush_needed_def flush_fields handle)
  have "bufSize (draw_textures_flush example_env ?s) = 0"
    using len by (simp add: flush_bufSize)
  then obtain t where t: "draw_textures_item example_env ?q ?s = Some t"
    using clip need
    by (simp add: draw_textures_item_def degenerate_def append_quad_def adopt_def
        MAX_BUFFER_SIZE_def Let_def)
  then have "lastName t = 8"
    using clip need
    by (auto simp: draw_textures_item_def degenerate_def append_quad_def adopt_def Let_def
        split: if_splits)
  then show ?thesis
    using flush_keeps_batch_state [of example_env example_batch] len handle t need by simp
qed

lemma blend_calls_shader [simp]: "blend_calls (shader_calls E s) = []"
  by (simp add: blend_calls_def shader_calls_def Let_def)

lemma blend_calls_texture [simp]: "blend_calls (texture_calls s) = []"
  by (simp add: blend_calls_def texture_calls_def)

lemma blend_calls_flush:
  "0 < bufSize s \<Longrightarrow> float_gt_zero (lastOpacity s) \<Longrightarrow>
   blend_calls (flush_calls E s) =
     [glBlendFunc (fst (blend_factors E (last_composite_op s)))
        (snd (blend_factors E (last_composite_op s)))]"
proof -
  assume "0 < bufSize s" and "float_gt_zero (lastOpacity s)"
  then have "flush_calls E s = flush_entered # render_calls E s"
    by (simp add: flush_calls_eq)
  moreover have "blend_calls (c # cs) = (case c of glBlendFunc _ _ \<Rightarrow> c # blend_calls cs
      | _ \<Rightarrow> blend_calls cs)" for c cs
    by (cases c) (simp_all add: blend_calls_def)
  moreover have "blend_calls (cs @ ds) = blend_calls cs @ blend_calls ds" for cs ds
    by (simp add: blend_calls_def)
  ultimately show ?thesis
    by (simp add: render_calls_def case_prod_beta)
qed

lemma example_batch_fields:
  "bufSize example_batch = 2" "lastName example_batch = 7" "lastOpacity example_batch = FVal 1"
  "last_composite_op example_batch = 4" "last_filter_type example_batch = 0"
  "last_filter_color example_batch =
     \<lparr>rgba_r = FVal 0, rgba_g = FVal 0, rgba_b = FVal 0, rgba_a = FVal 0\<rparr>"
  "trace example_batch = [flush_entered]"
  by (simp_all add: example_batch_def adopt_def example_item_def flush_trace flush_fields
      init_statics_def)

text \<open>
  C2. A flush that finds a batch in the buffer whose opacity is above 0 sets the blend
  function once, to the pair that the table gives for the composite operation of the
  batch; the operations lighter, xor and copy and every value that is no operation get
  the pair of source-over. (The labels of a C switch are distinct.)
\<close>

theorem flush_blend_table:
  assumes "distinct (case_labels E)" and "0 < bufSize s" and "float_gt_zero (lastOpacity s)"
  shows
    "(last_composite_op s = source_atop E \<longrightarrow>
        blend_calls (flush_calls E s) = [glBlendFunc GL_DST_ALPHA GL_ONE_MINUS_SRC_ALPHA]) \<and>
     (last_composite_op s = source_in E \<longrightarrow>
        blend_calls (flush_calls E s) = [glBlendFunc GL_DST_ALPHA GL_ZERO]) \<and>
     (last_composite_op s = source_out E \<longrightarrow>
        blend_calls (flush_calls E s) = [glBlendFunc GL_ONE_MINUS_DST_ALPHA GL_ZERO]) \<and>
     (last_composite_op s = source_over E \<longrightarrow>
        blend_calls (flush_calls E s) = [glBlendFunc GL_ONE GL_ONE_MINUS_SRC_ALPHA]) \<and>
     (last_composite_op s = destination_atop E \<longrightarrow>
        blend_calls (flush_calls E s) = [glBlendFunc GL_DST_ALPHA GL_SRC_ALPHA]) \<and>
     (last_composite_op s = destination_in E \<longrightarrow>
        blend_calls (flush_calls E s) = [glBlendFunc GL_ZERO GL_SRC_ALPHA]) \<and>
     (last_composite_op s = destination_out E \<longrightarrow>
        blend_calls (flush_calls E s) =
          [glBlendFunc GL_ONE_MINUS_SRC_ALPHA GL_ONE_MINUS_SRC_ALPHA]) \<and>
     (last_composite_op s = destination_over E \<longrightarrow>
        blend_calls (flush_calls E s) = [glBlendFunc GL_DST_ALPHA GL_SRC_ALPHA]) \<and>
     (last_composite_op s = lighter E \<or> last_composite_op s = x_or E \<or>
      last_composite_op s = copy E \<or> last_composite_op s \<notin> set (case_labels E) \<longrightarrow>
        blend_calls (flush_calls E s) = [glBlendFunc GL_ONE GL_ONE_MINUS_SRC_ALPHA])"
proof -
  note calls = blend_calls_flush [OF assms(2,3), of E]
  have labels: "distinct [source_atop E, source_in E, source_out E, source_over E,
      destination_atop E, destination_in E, destination_out E, destination_over E,
      lighter E, x_or E, copy E]"
    using assms(1) by (simp only: case_labels_def)
  have slebal: "distinct (rev [source_atop E, source_in E, source_out E, source_over E,
      destination_atop E, destination_in E, destination_out E, destination_over E,
      lighter E, x_or E, copy E])"
    using labels by (simp only: distinct_rev)
  have "blend_factors E (lighter E) = (GL_ONE, GL_ONE_MINUS_SRC_ALPHA)"
    and "blend_factors E (x_or E) = (GL_ONE, GL_ONE_MINUS_SRC_ALPHA)"
    and "blend_factors E (copy E) = (GL_ONE, GL_ONE_MINUS_SRC_ALPHA)"
    using labels slebal by (simp_all add: blend_factors_def)
  then have late: "blend_factors E c = (GL_ONE, GL_ONE_MINUS_SRC_ALPHA)"
    if "c = lighter E \<or> c = x_or E \<or> c = copy E" for c
    using that by blast
  have none: "blend_factors E c = (GL_ONE, GL_ONE_MINUS_SRC_ALPHA)"
    if "c \<notin> set (case_labels E)" for c
    using that by (simp add: blend_factors_def case_labels_def)
  have rest: "blend_factors E c = (GL_ONE, GL_ONE_MINUS_SRC_ALPHA)"
    if "c = lighter E \<or> c = x_or E \<or> c = copy E \<or> c \<notin> set (case_labels E)" for c
    using that late [of c] none [of c] by blast
  have "blend_factors E (source_atop E) = (GL_DST_ALPHA, GL_ONE_MINUS_SRC_ALPHA)"
    and "blend_factors E (source_in E) = (GL_DST_ALPHA, GL_ZERO)"
    and "blend_factors E (source_out E) = (GL_ONE_MINUS_DST_ALPHA, GL_ZERO)"
    and "blend_factors E (source_over E) = (GL_ONE, GL_ONE_MINUS_SRC_ALPHA)"
    and "blend_factors E (destination_atop E) = (GL_DST_ALPHA, GL_SRC_ALPHA)"
    and "blend_factors E (destination_in E) = (GL_ZERO, GL_SRC_ALPHA)"
    and "blend_factors E (destination_out E) = (GL_ONE_MINUS_SRC_ALPHA, GL_ONE_MINUS_SRC_ALPHA)"
    and "blend_factors E (destination_over E) = (GL_DST_ALPHA, GL_SRC_ALPHA)"
    using labels slebal by (simp_all add: blend_factors_def)
  then show ?thesis
    using rest [of "last_composite_op s"] by (simp add: calls)
qed

theorem flush_blend_table_witness:
  "distinct (case_labels example_env) \<and>
   0 < bufSize (example_batch\<lparr>last_composite_op := 6\<rparr>) \<and>
   float_gt_zero (lastOpacity (example_batch\<lparr>last_composite_op := 6\<rparr>)) \<and>
   last_composite_op (example_batch\<lparr>last_composite_op := 6\<rparr>) = destination_in example_env \<and>
   blend_calls (flush_calls example_env (example_batch\<lparr>last_composite_op := 6\<rparr>)) =
     [glBlendFunc GL_ZERO GL_SRC_ALPHA]"
proof -
  let ?s = "example_batch\<lparr>last_composite_op := 6\<rparr>"
  have labels: "distinct (case_labels example_env)"
    by (simp add: case_labels_def example_env_def)
  have len: "0 < bufSize ?s" and seen: "float_gt_zero (lastOpacity ?s)"
    by (simp_all add: example_batch_fields float_gt_zero_def)
  have op: "last_composite_op ?s = destination_in example_env"
    by (simp add: example_env_def)
  show ?thesis
    using flush_blend_table [OF labels len seen] labels len seen op by simp
qed

text \<open>
  C10. With the single-shader switch off and a filter kind that is none of the three
  known ones, a flush that finds a batch in the buffer whose opacity is above 0 sets the
  blend function, binds the texture of the batch and draws, and between the two binds
  no shader and sets no uniform: its calls are the eleven listed, in this order.
\<close>

theorem flush_unknown_filter:
  assumes "\<not> use_single_shader E"
    and "last_filter_type s \<noteq> FILTER_NONE E"
    and "last_filter_type s \<noteq> FILTER_LINEAR_ADD E"
    and "last_filter_type s \<noteq> FILTER_MULTIPLY E"
    and "0 < bufSize s" and "float_gt_zero (lastOpacity s)"
  shows
    "flush_calls E s =
       [flush_entered,
        glBlendFunc (fst (blend_factors E (last_composite_op s)))
          (snd (blend_factors E (last_composite_op s))),
        glActiveTexture_0,
        glBindTexture_2D (lastName s),
        glTexParameterf_2D GL_TEXTURE_MIN_FILTER GL_LINEAR,
        glTexParameterf_2D GL_TEXTURE_MAG_FILTER GL_NEAREST,
        glTexParameterf_2D GL_TEXTURE_WRAP_S GL_CLAMP_TO_EDGE,
        glTexParameterf_2D GL_TEXTURE_WRAP_T GL_CLAMP_TO_EDGE,
        glVertexAttribPointer vertex_coords 16 2,
        glVertexAttribPointer tex_coords 16 0,
        glDrawArrays_TRIANGLES (3 * bufSize s)] \<and>
     bufSize (draw_textures_flush E s) = 0"
proof -
  have "shader_calls E s = []"
    using assms(1-4) by (simp add: shader_calls_def Let_def)
  then have "render_calls E s =
      glBlendFunc (fst (blend_factors E (last_composite_op s)))
        (snd (blend_factors E (last_composite_op s))) # texture_calls s"
    by (simp add: render_calls_def case_prod_beta)
  then show ?thesis
    using assms(5,6) by (simp add: flush_calls_eq flush_bufSize texture_calls_def)
qed

theorem flush_unknown_filter_witness:
  "\<not> use_single_shader example_env \<and>
   last_filter_type (example_batch\<lparr>last_filter_type := 3\<rparr>) \<noteq> FILTER_NONE example_env \<and>
   last_filter_type (example_batch\<lparr>last_filter_type := 3\<rparr>) \<noteq> FILTER_LINEAR_ADD example_env \<and>
   last_filter_type (example_batch\<lparr>last_filter_type := 3\<rparr>) \<noteq> FILTER_MULTIPLY example_env \<and>
   0 < bufSize (example_batch\<lparr>last_filter_type := 3\<rparr>) \<and>
   float_gt_zero (lastOpacity (example_batch\<lparr>last_filter_type := 3\<rparr>)) \<and>
   flush_calls example_env (example_batch\<lparr>last_filter_type := 3\<rparr>) =
     [flush_entered,
      glBlendFunc GL_ONE GL_ONE_MINUS_SRC_ALPHA,
      glActiveTexture_0,
      glBindTexture_2D 7,
      glTexParameterf_2D GL_TEXTURE_MIN_FILTER GL_LINEAR,
      glTexParameterf_2D GL_TEXTURE_MAG_FILTER GL_NEAREST,
      glTexParameterf_2D GL_TEXTURE_WRAP_S GL_CLAMP_TO_EDGE,
      glTexParameterf_2D GL_TEXTURE_WRAP_T GL_CLAMP_TO_EDGE,
      glVertexAttribPointer vertex_coords 16 2,
      glVertexAttribPointer tex_coords 16 0,
      glDrawArrays_TRIANGLES 6]"
proof -
  let ?s = "example_batch\<lparr>last_filter_type := 3\<rparr>"
  have sw: "\<not> use_single_shader example_env"
    and f1: "last_filter_type ?s \<noteq> FILTER_NONE example_env"
    and f2: "last_filter_type ?s \<noteq> FILTER_LINEAR_ADD example_env"
    and f3: "last_filter_type ?s \<noteq> FILTER_MULTIPLY example_env"
    by (simp_all add: example_env_def)
  have len: "0 < bufSize ?s" and seen: "float_gt_zero (lastOpacity ?s)"
    by (simp_all add: example_batch_fields float_gt_zero_def)
  have "blend_factors example_env (last_composite_op ?s) = (GL_ONE, GL_ONE_MINUS_SRC_ALPHA)"
    by (simp add: example_batch_fields blend_factors_def example_env_def)
  then show ?thesis
    using flush_unknown_filter [OF sw f1 f2 f3 len seen] sw f1 f2 f3 len seen
    by (simp add: example_batch_fields)
qed

section \<open>Submit\<close>

text \<open>
  C4. A submit whose clip rectangle has width 0 or height 0 returns the state it got:
  the buffer length and the slots are as before, no flush was entered and no call made,
  and the five fields of the batch are as before.
\<close>

theorem item_degenerate_clip:
  assumes "float_eq (rect_width (clip q)) (FVal 0) \<or> float_eq (rect_height (clip q)) (FVal 0)"
  shows "draw_textures_item E q s = Some s"
  using assms by (auto simp: draw_textures_item_def)

theorem item_degenerate_clip_witness:
  "float_eq (rect_width (clip (example_item\<lparr>clip := \<lparr>rect_x = FVal 0, rect_y = FVal 0,
      rect_width = FVal 0, rect_height = FVal 480\<rparr>\<rparr>))) (FVal 0) \<and>
   draw_textures_item example_env (example_item\<lparr>clip := \<lparr>rect_x = FVal 0, rect_y = FVal 0,
      rect_width = FVal 0, rect_height = FVal 480\<rparr>\<rparr>) example_batch = Some example_batch"
proof -
  let ?q = "example_item\<lparr>clip := \<lparr>rect_x = FVal 0, rect_y = FVal 0,
      rect_width = FVal 0, rect_height = FVal 480\<rparr>\<rparr>"
  have w: "float_eq (rect_width (clip ?q)) (FVal 0)"
    by (simp add: float_eq_def)
  then have "float_eq (rect_width (clip ?q)) (FVal 0) \<or> float_eq (rect_height (clip ?q)) (FVal 0)"
    by (rule disjI1)
  from item_degenerate_clip [OF this, of example_env example_batch] w show ?thesis
    by (rule_tac conjI)
qed

lemma adopt_fields [simp]:
  "lastName (adopt q s) = name q"
  "lastOpacity (adopt q s) = opacity q"
  "last_composite_op (adopt q s) = composite_op q"
  "last_filter_color (adopt q s) = filter_color q"
  "last_filter_type (adopt q s) = filter_type q"
  "bufSize (adopt q s) = bufSize s"
  "buffer (adopt q s) = buffer s"
  "trace (adopt q s) = trace s"
  by (simp_all add: adopt_def)

lemma item_with_flush:
  assumes "\<not> degenerate (clip q)" and "flush_needed q s" and "0 \<le> bufSize s"
  shows "draw_textures_item E q s =
     Some ((adopt q (draw_textures_flush E s))
       \<lparr>bufSize := 2,
        buffer := (buffer s)[0 := first_triangle E q, 1 := second_triangle E q]\<rparr>)"
proof -
  have "bufSize (adopt q (draw_textures_flush E s)) = 0"
    using assms(3) by (simp add: flush_bufSize)
  then have "append_quad E q (adopt q (draw_textures_flush E s)) =
     Some ((adopt q (draw_textures_flush E s))
       \<lparr>bufSize := 2,
        buffer := (buffer s)[0 := first_triangle E q, 1 := second_triangle E q]\<rparr>)"
    by (simp add: append_quad_def MAX_BUFFER_SIZE_def Let_def flush_fields)
  then show ?thesis
    using assms(1,2) by (simp add: draw_textures_item_def degenerate_def)
qed

lemma item_without_flush:
  assumes "\<not> degenerate (clip q)" and "\<not> flush_needed q s" and "0 \<le> bufSize s"
  shows "draw_textures_item E q s =
     Some (s\<lparr>bufSize := bufSize s + 2,
            buffer := (buffer s)[nat (bufSize s) := first_triangle E q,
                                 nat (bufSize s + 1) := second_triangle E q]\<rparr>)"
proof -
  have "bufSize s + 2 < MAX_BUFFER_SIZE"
    using assms(2) by (simp add: flush_needed_def)
  then have "append_quad E q s =
     Some (s\<lparr>bufSize := bufSize s + 2,
            buffer := (buffer s)[nat (bufSize s) := first_triangle E q,
                                 nat (bufSize s + 1) := second_triangle E q]\<rparr>)"
    using assms(3) by (simp add: append_quad_def Let_def)
  then show ?thesis
    using assms(1,2) by (simp add: draw_textures_item_def degenerate_def)
qed

lemma flush_count_flush: "flush_count (draw_textures_flush E s) = Suc (flush_count s)"
proof -
  have "count_list (render_calls E s) flush_entered = 0"
    by (simp add: render_calls_def shader_calls_def texture_calls_def Let_def case_prod_beta)
  then show ?thesis
    by (simp add: flush_count_def flush_trace)
qed

lemma flush_count_upd [simp]:
  "flush_count (s\<lparr>bufSize := n\<rparr>) = flush_count s"
  "flush_count (s\<lparr>buffer := b\<rparr>) = flush_count s"
  "flush_count (adopt q s) = flush_count s"
  by (simp_all add: flush_count_def)

text \<open>What a submit preserves: the length stays within the buffer.\<close>

lemma item_bounds:
  assumes "0 \<le> bufSize s" and "bufSize s < MAX_BUFFER_SIZE"
    and "length (buffer s) = nat MAX_BUFFER_SIZE"
  shows "\<exists>t. draw_textures_item E q s = Some t \<and> 0 \<le> bufSize t \<and>
           bufSize t < MAX_BUFFER_SIZE \<and> length (buffer t) = nat MAX_BUFFER_SIZE"
proof (cases "degenerate (clip q)")
  case True
  then have "draw_textures_item E q s = Some s"
    by (auto simp: draw_textures_item_def degenerate_def)
  then show ?thesis using assms by simp
next
  case False
  show ?thesis
  proof (cases "flush_needed q s")
    case True
    show ?thesis
      using assms(3) by (simp add: item_with_flush [OF False True assms(1)] MAX_BUFFER_SIZE_def)
  next
    case nf: False
    then have "bufSize s + 2 < MAX_BUFFER_SIZE"
      by (simp add: flush_needed_def)
    then show ?thesis
      using assms by (simp add: item_without_flush [OF False nf assms(1)])
  qed
qed

lemma reachable_bounds:
  "reachable E s \<Longrightarrow>
   0 \<le> bufSize s \<and> bufSize s < MAX_BUFFER_SIZE \<and> length (buffer s) = nat MAX_BUFFER_SIZE"
proof (induction rule: reachable.induct)
  case reach_init
  show ?case by (simp add: init_statics_def MAX_BUFFER_SIZE_def)
next
  case (reach_item s q s')
  then show ?case using item_bounds [of s E q] by auto
next
  case (reach_flush s)
  then show ?case by (simp add: flush_bufSize flush_fields)
qed

lemma example_batch_reachable: "reachable example_env example_batch"
  by (rule reach_item [OF reach_init example_batch_reached])

text \<open>
  C3. In every state that submits and flushes reach from the initial one, the buffer
  length is at least 0 and at most \<open>MAX_BUFFER_SIZE\<close>, which is 1024; every submit
  from such a state stores inside the buffer, and a flush leaves the length 0.
\<close>

theorem bufSize_within_capacity:
  assumes "reachable E s"
  shows "0 \<le> bufSize s \<and> bufSize s \<le> MAX_BUFFER_SIZE \<and> MAX_BUFFER_SIZE = 1024 \<and>
         (\<forall>q. \<exists>t. draw_textures_item E q s = Some t \<and> bufSize t \<le> MAX_BUFFER_SIZE) \<and>
         bufSize (draw_textures_flush E s) = 0"
proof -
  from reachable_bounds [OF assms]
  have lo: "0 \<le> bufSize s" and hi: "bufSize s < MAX_BUFFER_SIZE"
    and len: "length (buffer s) = nat MAX_BUFFER_SIZE"
    by simp_all
  have "\<exists>t. draw_textures_item E q s = Some t \<and> bufSize t \<le> MAX_BUFFER_SIZE" for q
    using item_bounds [OF lo hi len, of E q] by auto
  moreover have "bufSize (draw_textures_flush E s) = 0"
    using lo by (simp add: flush_bufSize)
  ultimately show ?thesis
    using lo hi by (simp add: MAX_BUFFER_SIZE_def)
qed

theorem bufSize_within_capacity_witness:
  "reachable example_env example_batch \<and> bufSize example_batch = 2 \<and>
   bufSize example_batch \<le> MAX_BUFFER_SIZE \<and>
   bufSize (draw_textures_flush example_env example_batch) = 0"
  using bufSize_within_capacity [OF example_batch_reachable] example_batch_reachable
  by (simp add: example_batch_fields)

lemma zero_opacity_batch_reached:
  "draw_textures_item example_env zero_opacity_item init_statics = Some zero_opacity_batch"
proof -
  have "\<not> degenerate (clip zero_opacity_item)"
    by (simp add: zero_opacity_item_def example_item_def degenerate_def float_eq_def
        float_is_zero_def)
  moreover have "flush_needed zero_opacity_item init_statics"
    by (simp add: flush_needed_def zero_opacity_item_def example_item_def init_statics_def)
  moreover have "0 \<le> bufSize init_statics"
    by (simp add: init_statics_def)
  ultimately show ?thesis
    unfolding zero_opacity_batch_def by (rule item_with_flush)
qed

lemma flush_needed_iff:
  "flush_needed q s \<longleftrightarrow> \<not> same_batch q s \<or> MAX_BUFFER_SIZE \<le> bufSize s + 2"
  by (auto simp: flush_needed_def same_batch_def)

text \<open>
  C1, as the code has it. The claim compares the opacity bit for bit; line 80 compares
  it with C's \<^verbatim>\<open>!=\<close>, for which positive and negative zero are equal and a
  not-a-number differs from itself. At a batch of opacity \<open>+0\<close> a request of opacity
  \<open>-0\<close>, equal in all else, differs in its bits, and no flush is entered.
\<close>

theorem bit_exact_opacity_counterexample:
  "reachable example_env zero_opacity_batch \<and>
   \<not> degenerate (clip neg_zero_item) \<and>
   lastOpacity zero_opacity_batch \<noteq> opacity neg_zero_item \<and>
   spec_flush_condition neg_zero_item zero_opacity_batch \<and>
   draw_textures_item example_env neg_zero_item zero_opacity_batch \<noteq> None \<and>
   flush_count (the (draw_textures_item example_env neg_zero_item zero_opacity_batch)) =
     flush_count zero_opacity_batch"
proof -
  have reach: "reachable example_env zero_opacity_batch"
    by (rule reach_item [OF reach_init zero_opacity_batch_reached])
  have clip: "\<not> degenerate (clip neg_zero_item)"
    by (simp add: neg_zero_item_def example_item_def degenerate_def float_eq_def
        float_is_zero_def)
  have bits: "lastOpacity zero_opacity_batch \<noteq> opacity neg_zero_item"
    by (simp add: zero_opacity_batch_def zero_opacity_item_def neg_zero_item_def)
  then have spec: "spec_flush_condition neg_zero_item zero_opacity_batch"
    by (simp add: spec_flush_condition_def)
  have quiet: "\<not> flush_needed neg_zero_item zero_opacity_batch"
    by (simp add: flush_needed_def zero_opacity_batch_def zero_opacity_item_def
        neg_zero_item_def example_item_def rgba_equals_def float_eq_def float_is_zero_def
        flush_bufSize MAX_BUFFER_SIZE_def)
  have len: "0 \<le> bufSize zero_opacity_batch"
    by (simp add: zero_opacity_batch_def)
  show ?thesis
    using reach clip bits spec by (simp add: item_without_flush [OF clip quiet len])
qed

text \<open>
  C1, amended. A submit with a clip rectangle that is not degenerate, from a state whose
  buffer length is not negative, enters a flush before it appends the quad exactly when
  the condition of line 80 holds: the texture handle differs, or the buffer length plus 2
  is at least the maximum, or the opacity differs by C's comparison of floats, or the
  composite operation differs, or a component of the filter colour differs by that
  comparison, or the filter kind differs. The flush is the one of the previous state;
  after it the five fields are those of the request, and the quad is in slots 0 and 1.
  Without the condition no flush is entered and the five fields stay.
\<close>

theorem item_flush_condition:
  assumes "\<not> degenerate (clip q)" and "0 \<le> bufSize s"
  shows
    "\<exists>t. draw_textures_item E q s = Some t \<and>
       (flush_needed q s \<longleftrightarrow>
          name q \<noteq> lastName s \<or> MAX_BUFFER_SIZE \<le> bufSize s + 2 \<or>
          \<not> float_eq (lastOpacity s) (opacity q) \<or>
          composite_op q \<noteq> last_composite_op s \<or>
          \<not> (float_eq (rgba_r (last_filter_color s)) (rgba_r (filter_color q)) \<and>
             float_eq (rgba_g (last_filter_color s)) (rgba_g (filter_color q)) \<and>
             float_eq (rgba_b (last_filter_color s)) (rgba_b (filter_color q)) \<and>
             float_eq (rgba_a (last_filter_color s)) (rgba_a (filter_color q))) \<or>
          last_filter_type s \<noteq> filter_type q) \<and>
       (flush_needed q s \<longrightarrow>
          flush_count t = flush_count s + 1 \<and>
          trace t = trace (draw_textures_flush E s) \<and>
          lastName t = name q \<and> lastOpacity t = opacity q \<and>
          last_composite_op t = composite_op q \<and> last_filter_color t = filter_color q \<and>
          last_filter_type t = filter_type q \<and>
          bufSize t = 2 \<and>
          buffer t = (buffer s)[0 := first_triangle E q, 1 := second_triangle E q]) \<and>
       (\<not> flush_needed q s \<longrightarrow>
          flush_count t = flush_count s \<and> trace t = trace s \<and>
          lastName t = lastName s \<and> lastOpacity t = lastOpacity s \<and>
          last_composite_op t = last_composite_op s \<and>
          last_filter_color t = last_filter_color s \<and>
          last_filter_type t = last_filter_type s \<and>
          bufSize t = bufSize s + 2 \<and>
          buffer t = (buffer s)[nat (bufSize s) := first_triangle E q,
                                nat (bufSize s + 1) := second_triangle E q])"
proof -
  have cond: "flush_needed q s \<longleftrightarrow>
      name q \<noteq> lastName s \<or> MAX_BUFFER_SIZE \<le> bufSize s + 2 \<or>
      \<not> float_eq (lastOpacity s) (opacity q) \<or>
      composite_op q \<noteq> last_composite_op s \<or>
      \<not> (float_eq (rgba_r (last_filter_color s)) (rgba_r (filter_color q)) \<and>
         float_eq (rgba_g (last_filter_color s)) (rgba_g (filter_color q)) \<and>
         float_eq (rgba_b (last_filter_color s)) (rgba_b (filter_color q)) \<and>
         float_eq (rgba_a (last_filter_color s)) (rgba_a (filter_color q))) \<or>
      last_filter_type s \<noteq> filter_type q"
    by (simp add: flush_needed_def rgba_equals_def)
  show ?thesis
  proof (cases "flush_needed q s")
    case True
    have "flush_count ((adopt q (draw_textures_flush E s))
        \<lparr>bufSize := 2,
         buffer := (buffer s)[0 := first_triangle E q, 1 := second_triangle E q]\<rparr>) =
        flush_count s + 1"
      by (simp add: flush_count_def flush_count_flush [unfolded flush_count_def])
    then show ?thesis
      using True cond by (simp add: item_with_flush [OF assms(1) True assms(2)])
  next
    case False
    have "flush_count (s\<lparr>bufSize := bufSize s + 2,
        buffer := (buffer s)[nat (bufSize s) := first_triangle E q,
                             nat (bufSize s + 1) := second_triangle E q]\<rparr>) = flush_count s"
      by (simp add: flush_count_def)
    then show ?thesis
      using False cond by (simp add: item_without_flush [OF assms(1) False assms(2)])
  qed
qed

theorem item_flush_condition_witness:
  "\<not> degenerate (clip (example_item\<lparr>name := 8\<rparr>)) \<and> 0 \<le> bufSize example_batch \<and>
   name (example_item\<lparr>name := 8\<rparr>) \<noteq> lastName example_batch \<and>
   draw_textures_item example_env (example_item\<lparr>name := 8\<rparr>) example_batch \<noteq> None \<and>
   flush_count (the (draw_textures_item example_env (example_item\<lparr>name := 8\<rparr>) example_batch)) = 2 \<and>
   lastName (the (draw_textures_item example_env (example_item\<lparr>name := 8\<rparr>) example_batch)) = 8"
proof -
  let ?q = "example_item\<lparr>name := 8\<rparr>"
  have clip: "\<not> degenerate (clip ?q)"
    by (simp add: example_item_def degenerate_def float_eq_def float_is_zero_def)
  have len: "0 \<le> bufSize example_batch" and handle: "name ?q \<noteq> lastName example_batch"
    by (simp_all add: example_batch_fields)
  have count: "flush_count example_batch = 1"
    by (simp add: flush_count_def example_batch_fields)
  from item_flush_condition [OF clip len, of example_env] handle
  obtain t where "draw_textures_item example_env ?q example_batch = Some t"
    and "flush_count t = flush_count example_batch + 1" and "lastName t = name ?q"
    by blast
  then show ?thesis
    using clip len handle count by simp
qed

lemma item_slots:
  assumes "reachable E s" and "\<not> degenerate (clip q)"
  shows "\<exists>t. draw_textures_item E q s = Some t \<and> 2 \<le> bufSize t \<and>
           bufSize t \<le> MAX_BUFFER_SIZE \<and>
           buffer t ! nat (bufSize t - 2) = first_triangle E q \<and>
           buffer t ! nat (bufSize t - 1) = second_triangle E q \<and>
           (\<forall>i. i \<noteq> nat (bufSize t - 2) \<and> i \<noteq> nat (bufSize t - 1) \<longrightarrow>
                buffer t ! i = buffer s ! i)"
proof -
  from reachable_bounds [OF assms(1)]
  have lo: "0 \<le> bufSize s" and hi: "bufSize s < MAX_BUFFER_SIZE"
    and len: "length (buffer s) = nat MAX_BUFFER_SIZE"
    by simp_all
  show ?thesis
  proof (cases "flush_needed q s")
    case True
    show ?thesis
      using len by (simp add: item_with_flush [OF assms(2) True lo] MAX_BUFFER_SIZE_def)
  next
    case False
    then have room: "bufSize s + 2 < MAX_BUFFER_SIZE"
      by (simp add: flush_needed_def)
    have "nat (bufSize s + 1) = Suc (nat (bufSize s))"
      and "nat (1 + bufSize s) = Suc (nat (bufSize s))"
      using lo by simp_all
    moreover have "Suc (nat (bufSize s)) < length (buffer s)"
      using lo room len by simp
    ultimately show ?thesis
      using lo room by (simp add: item_without_flush [OF assms(2) False lo])
  qed
qed

lemma example_tex_coords:
  "decimals4 (fdiv (FVal 10) (float_of_int 100)) = Some 1000"
  "decimals4 (fdiv (FVal 20) (float_of_int 200)) = Some 1000"
  "decimals4 (fdiv (fadd (FVal 10) (FVal 30)) (float_of_int 100)) = Some 4000"
  "decimals4 (fdiv (fadd (FVal 20) (FVal 40)) (float_of_int 200)) = Some 3000"
  by code_simp+

text \<open>
  C5. A submit that appends a quad (its clip rectangle is not degenerate) stores two
  slots, at buffer length minus 2 and minus 1, and leaves the others. With
  \<open>sMin = srcX / textureWidth\<close>, \<open>tMin = srcY / textureHeight\<close>,
  \<open>sMax = (srcX + srcRectWidth) / textureWidth\<close> and
  \<open>tMax = (srcY + srcRectHeight) / textureHeight\<close> in C's float arithmetic, the
  texture coordinates of the first slot are \<open>(sMin, tMax)\<close>, \<open>(sMax, tMax)\<close>,
  \<open>(sMin, tMin)\<close> and those of the second \<open>(sMax, tMax)\<close>, \<open>(sMax, tMin)\<close>,
  \<open>(sMin, tMin)\<close>. For the source rectangle (10, 20, 30, 40) over a texture of 100 by
  200 the four numbers are 0.1, 0.1, 0.4 and 0.3 to four decimals.
\<close>

theorem item_texture_coordinates:
  assumes "reachable E s" and "\<not> degenerate (clip q)"
  shows
    "\<exists>t. draw_textures_item E q s = Some t \<and> 2 \<le> bufSize t \<and>
       bufSize t \<le> MAX_BUFFER_SIZE \<and>
       (let sMin = fdiv (rect_x (src q)) (float_of_int (src_width q));
            tMin = fdiv (rect_y (src q)) (float_of_int (src_height q));
            sMax = fdiv (fadd (rect_x (src q)) (rect_width (src q))) (float_of_int (src_width q));
            tMax = fdiv (fadd (rect_y (src q)) (rect_height (src q))) (float_of_int (src_height q));
            o1 = buffer t ! nat (bufSize t - 2);
            o2 = buffer t ! nat (bufSize t - 1)
        in [(srcX1 o1, srcY1 o1), (srcX2 o1, srcY2 o1), (srcX3 o1, srcY3 o1)] =
             [(sMin, tMax), (sMax, tMax), (sMin, tMin)] \<and>
           [(srcX1 o2, srcY1 o2), (srcX2 o2, srcY2 o2), (srcX3 o2, srcY3 o2)] =
             [(sMax, tMax), (sMax, tMin), (sMin, tMin)] \<and>
           (src q = \<lparr>rect_x = FVal 10, rect_y = FVal 20, rect_width = FVal 30,
                     rect_height = FVal 40\<rparr> \<and> src_width q = 100 \<and> src_height q = 200 \<longrightarrow>
              decimals4 sMin = Some 1000 \<and> decimals4 tMin = Some 1000 \<and>
              decimals4 sMax = Some 4000 \<and> decimals4 tMax = Some 3000)) \<and>
       (\<forall>i. i \<noteq> nat (bufSize t - 2) \<and> i \<noteq> nat (bufSize t - 1) \<longrightarrow>
            buffer t ! i = buffer s ! i)"
proof -
  from item_slots [OF assms, of ] obtain t
    where t: "draw_textures_item E q s = Some t" "2 \<le> bufSize t"
      "bufSize t \<le> MAX_BUFFER_SIZE"
      "buffer t ! nat (bufSize t - 2) = first_triangle E q"
      "buffer t ! nat (bufSize t - 1) = second_triangle E q"
      "\<forall>i. i \<noteq> nat (bufSize t - 2) \<and> i \<noteq> nat (bufSize t - 1) \<longrightarrow>
           buffer t ! i = buffer s ! i"
    by blast
  have "decimals4 (fdiv (rect_x (src q)) (float_of_int (src_width q))) = Some 1000 \<and>
        decimals4 (fdiv (rect_y (src q)) (float_of_int (src_height q))) = Some 1000 \<and>
        decimals4 (fdiv (fadd (rect_x (src q)) (rect_width (src q)))
          (float_of_int (src_width q))) = Some 4000 \<and>
        decimals4 (fdiv (fadd (rect_y (src q)) (rect_height (src q)))
          (float_of_int (src_height q))) = Some 3000"
    if "src q = \<lparr>rect_x = FVal 10, rect_y = FVal 20, rect_width = FVal 30,
                  rect_height = FVal 40\<rparr>" and "src_width q = 100" and "src_height q = 200"
    using that by (simp add: example_tex_coords)
  then show ?thesis
    using t by (simp add: first_triangle_def second_triangle_def Let_def)
qed

theorem item_texture_coordinates_witness:
  "reachable example_env init_statics \<and> \<not> degenerate (clip example_item) \<and>
   draw_textures_item example_env example_item init_statics = Some example_batch \<and>
   srcX1 (buffer example_batch ! 0) = FVal (13421773 / 134217728) \<and>
   decimals4 (srcX1 (buffer example_batch ! 0)) = Some 1000 \<and>
   decimals4 (srcY1 (buffer example_batch ! 0)) = Some 3000 \<and>
   decimals4 (srcX2 (buffer example_batch ! 0)) = Some 4000 \<and>
   decimals4 (srcY3 (buffer example_batch ! 0)) = Some 1000 \<and>
   decimals4 (srcX1 (buffer example_batch ! 1)) = Some 4000 \<and>
   decimals4 (srcY2 (buffer example_batch ! 1)) = Some 1000"
proof -
  have clip: "\<not> degenerate (clip example_item)"
    by (simp add: example_item_def degenerate_def float_eq_def float_is_zero_def)
  have size: "src example_item = \<lparr>rect_x = FVal 10, rect_y = FVal 20, rect_width = FVal 30,
      rect_height = FVal 40\<rparr>" "src_width example_item = 100" "src_height example_item = 200"
    by (simp_all add: example_item_def)
  have exact: "fdiv (FVal 10) (float_of_int 100) = FVal (13421773 / 134217728)"
    by code_simp
  show ?thesis
    using item_texture_coordinates [OF reach_init clip, of example_env] reach_init clip size
    by (simp add: example_batch_reached example_batch_fields Let_def exact)
qed

section \<open>Runs of submits\<close>

lemma float_eq_sym: "float_eq u v \<Longrightarrow> float_eq v u"
  by (auto simp: float_eq_def)

lemma float_eq_trans: "float_eq u v \<Longrightarrow> float_eq v w \<Longrightarrow> float_eq u w"
  by (auto simp: float_eq_def)

lemma float_eq_refl: "float_eq u v \<Longrightarrow> float_eq v v"
  by (auto simp: float_eq_def)

lemma rgba_equals_trans: "rgba_equals c d \<Longrightarrow> rgba_equals d e \<Longrightarrow> rgba_equals c e"
  unfolding rgba_equals_def by (blast intro: float_eq_trans)

lemma same_batch_upd [simp]:
  "same_batch q (s\<lparr>bufSize := n\<rparr>) = same_batch q s"
  "same_batch q (s\<lparr>buffer := b\<rparr>) = same_batch q s"
  by (simp_all add: same_batch_def)

lemma draw_items_append:
  "draw_items E (qs @ rs) s =
     (case draw_items E qs s of None \<Rightarrow> None | Some t \<Rightarrow> draw_items E rs t)"
  by (induction qs arbitrary: s) (simp_all split: option.splits)

lemma appended_simps [simp]:
  "appended [] = 0"
  "appended (q # qs) = (if degenerate (clip q) then appended qs else Suc (appended qs))"
  by (simp_all add: appended_def)

lemma item_dropped: "degenerate (clip q) \<Longrightarrow> draw_textures_item E q s = Some s"
  by (auto simp: draw_textures_item_def degenerate_def)

lemma same_run:
  fixes E :: "'m env"
  assumes "0 \<le> bufSize s" and "bufSize s + 2 * int (appended qs) < MAX_BUFFER_SIZE"
    and "\<forall>q\<in>set qs. degenerate (clip q) \<or> same_batch q s"
  shows "\<exists>t. draw_items E qs s = Some t \<and> flush_count t = flush_count s \<and>
           trace t = trace s \<and> bufSize t = bufSize s + 2 * int (appended qs) \<and>
           (\<forall>q :: 'm item_args. same_batch q t = same_batch q s)"
  using assms
proof (induction qs arbitrary: s)
  case Nil
  then show ?case by simp
next
  case (Cons q qs)
  show ?case
  proof (cases "degenerate (clip q)")
    case True
    have "0 \<le> bufSize s" and "bufSize s + 2 * int (appended qs) < MAX_BUFFER_SIZE"
      and "\<forall>p\<in>set qs. degenerate (clip p) \<or> same_batch p s"
      using Cons.prems True by simp_all
    from Cons.IH [OF this] show ?thesis
      using True by (simp add: item_dropped)
  next
    case clip: False
    let ?t = "s\<lparr>bufSize := bufSize s + 2,
        buffer := (buffer s)[nat (bufSize s) := first_triangle E q,
                             nat (bufSize s + 1) := second_triangle E q]\<rparr>"
    from Cons.prems clip have same: "same_batch q s"
      and room: "bufSize s + 2 < MAX_BUFFER_SIZE"
      by simp_all
    then have quiet: "\<not> flush_needed q s"
      by (simp add: flush_needed_iff)
    have step: "draw_textures_item E q s = Some ?t"
      by (rule item_without_flush [OF clip quiet Cons.prems(1)])
    have "0 \<le> bufSize ?t" and "bufSize ?t + 2 * int (appended qs) < MAX_BUFFER_SIZE"
      and "\<forall>p\<in>set qs. degenerate (clip p) \<or> same_batch p ?t"
      using Cons.prems clip by simp_all
    from Cons.IH [OF this] obtain u
      where "draw_items E qs ?t = Some u \<and> flush_count u = flush_count ?t \<and>
        trace u = trace ?t \<and> bufSize u = bufSize ?t + 2 * int (appended qs) \<and>
        (\<forall>p :: 'm item_args. same_batch p u = same_batch p ?t)" ..
    then show ?thesis
      using step clip by simp
  qed
qed

lemma appended_replicate:
  "\<not> degenerate (clip q) \<Longrightarrow> appended (replicate n q) = n"
  by (simp add: appended_def)

lemma item_after_item:
  assumes "0 \<le> bufSize s" and "\<not> degenerate (clip p)"
  shows "\<exists>t. draw_textures_item E p s = Some t \<and> 0 \<le> bufSize t \<and>
           (lastName t = name p \<and> lastOpacity t = opacity p \<and>
            last_composite_op t = composite_op p \<and> last_filter_color t = filter_color p \<and>
            last_filter_type t = filter_type p \<or> same_batch p t)"
proof (cases "flush_needed p s")
  case True
  show ?thesis
    by (simp add: item_with_flush [OF assms(2) True assms(1)])
next
  case False
  then have "same_batch p s"
    by (simp add: flush_needed_iff)
  then show ?thesis
    using assms(1) by (simp add: item_without_flush [OF assms(2) False assms(1)])
qed

lemma differs_needs_flush:
  assumes "tuple_differs p q"
    and "lastName t = name p \<and> lastOpacity t = opacity p \<and>
         last_composite_op t = composite_op p \<and> last_filter_color t = filter_color p \<and>
         last_filter_type t = filter_type p \<or> same_batch p t"
  shows "flush_needed q t"
proof (rule ccontr)
  assume "\<not> flush_needed q t"
  then have q: "same_batch q t"
    by (simp add: flush_needed_iff)
  from assms(2) show False
  proof
    assume "lastName t = name p \<and> lastOpacity t = opacity p \<and>
         last_composite_op t = composite_op p \<and> last_filter_color t = filter_color p \<and>
         last_filter_type t = filter_type p"
    then show False
      using q assms(1) by (simp add: same_batch_def tuple_differs_def)
  next
    assume p: "same_batch p t"
    have "float_eq (opacity p) (opacity q)"
      using p q unfolding same_batch_def by (blast intro: float_eq_sym float_eq_trans)
    moreover have "rgba_equals (filter_color p) (filter_color q)"
      using p q unfolding same_batch_def rgba_equals_def
      by (blast intro: float_eq_sym float_eq_trans)
    ultimately show False
      using p q assms(1) by (simp add: same_batch_def tuple_differs_def)
  qed
qed

lemma replicate_512: "replicate 512 x = x # replicate 510 x @ [x]"
proof -
  have "(512::nat) = Suc (Suc 510)"
    by simp
  then show ?thesis
    by (simp only: replicate_Suc replicate_append_same)
qed

lemma example_same_batch: "same_batch example_item example_batch"
  by (simp add: same_batch_def example_batch_fields example_item_def rgba_equals_def
      float_eq_def float_is_zero_def)

lemma example_clip: "\<not> degenerate (clip example_item)"
  by (simp add: example_item_def degenerate_def float_eq_def float_is_zero_def)

text \<open>
  C6, as the code has it. 512 submits of one and the same request to the initial state
  carry one state tuple. The first enters a flush (the handle of the initial state is
  -1), the next 510 enter none, and the last finds 1022 slots used: a second flush is
  entered between submits of an identical tuple.
\<close>

theorem identical_submits_counterexample:
  "draw_items example_env [example_item] init_statics \<noteq> None \<and>
   draw_items example_env (replicate 512 example_item) init_statics \<noteq> None \<and>
   flush_count (the (draw_items example_env [example_item] init_statics)) = 1 \<and>
   flush_count (the (draw_items example_env (replicate 512 example_item) init_statics)) = 2"
proof -
  have one: "flush_count example_batch = 1" and two: "bufSize example_batch = 2"
    by (simp_all add: flush_count_def example_batch_fields)
  have many: "appended (replicate 510 example_item) = 510"
    by (rule appended_replicate [OF example_clip])
  have "0 \<le> bufSize example_batch"
    and "bufSize example_batch + 2 * int (appended (replicate 510 example_item)) < MAX_BUFFER_SIZE"
    and "\<forall>q\<in>set (replicate 510 example_item). degenerate (clip q) \<or> same_batch q example_batch"
    using example_same_batch by (simp_all add: two many MAX_BUFFER_SIZE_def)
  from same_run [OF this, of example_env] obtain t
    where run: "draw_items example_env (replicate 510 example_item) example_batch = Some t"
      and t: "flush_count t = 1" "bufSize t = 1022" "same_batch example_item t"
    using one two many example_same_batch by auto
  have full: "flush_needed example_item t"
    using t(2) by (simp add: flush_needed_def MAX_BUFFER_SIZE_def)
  have len: "0 \<le> bufSize t"
    using t(2) by simp
  have last: "flush_count (the (draw_textures_item example_env example_item t)) = 2"
    "draw_textures_item example_env example_item t \<noteq> None"
    using t(1) by (simp_all add: item_with_flush [OF example_clip full len] flush_count_flush)
  then obtain u where u: "draw_textures_item example_env example_item t = Some u"
    by blast
  have "draw_items example_env (replicate 512 example_item) init_statics = Some u"
    by (simp add: replicate_512 example_batch_reached draw_items_append run u)
  then show ?thesis
    using last(1) u one by (simp add: example_batch_reached)
qed

text \<open>
  C6, amended. In a run of submits of which each either has a degenerate clip rectangle,
  and is dropped, or carries the state tuple of the batch, by the comparisons of line 80,
  no flush is entered as long as the buffer has room for all that are not dropped: with
  \<open>n\<close> of them, buffer length plus \<open>2 n\<close> is below the maximum. And when a submit
  follows a submit, both with a clip rectangle that is not degenerate, and the two state
  tuples differ in a field by those comparisons, the second enters exactly one flush.
\<close>

theorem same_state_submits:
  "(0 \<le> bufSize s \<and> bufSize s + 2 * int (appended qs) < MAX_BUFFER_SIZE \<and>
    (\<forall>q\<in>set qs. degenerate (clip q) \<or> same_batch q s) \<longrightarrow>
      (\<exists>t. draw_items E qs s = Some t \<and> flush_count t = flush_count s \<and>
           bufSize t = bufSize s + 2 * int (appended qs))) \<and>
   (0 \<le> bufSize s \<and> \<not> degenerate (clip p) \<and> \<not> degenerate (clip q) \<and> tuple_differs p q \<longrightarrow>
      (\<exists>t u. draw_textures_item E p s = Some t \<and> draw_textures_item E q t = Some u \<and>
           flush_count u = flush_count t + 1))"
proof (intro conjI impI)
  assume "0 \<le> bufSize s \<and> bufSize s + 2 * int (appended qs) < MAX_BUFFER_SIZE \<and>
    (\<forall>q\<in>set qs. degenerate (clip q) \<or> same_batch q s)"
  then have "0 \<le> bufSize s" and "bufSize s + 2 * int (appended qs) < MAX_BUFFER_SIZE"
    and "\<forall>q\<in>set qs. degenerate (clip q) \<or> same_batch q s"
    by simp_all
  from same_run [OF this, of E]
  show "\<exists>t. draw_items E qs s = Some t \<and> flush_count t = flush_count s \<and>
           bufSize t = bufSize s + 2 * int (appended qs)"
    by blast
next
  assume a: "0 \<le> bufSize s \<and> \<not> degenerate (clip p) \<and> \<not> degenerate (clip q) \<and> tuple_differs p q"
  then have len: "0 \<le> bufSize s" and cp: "\<not> degenerate (clip p)"
    and cq: "\<not> degenerate (clip q)" and diff: "tuple_differs p q"
    by simp_all
  from item_after_item [OF len cp, of E] obtain t
    where t: "draw_textures_item E p s = Some t" "0 \<le> bufSize t"
      and fields: "lastName t = name p \<and> lastOpacity t = opacity p \<and>
            last_composite_op t = composite_op p \<and> last_filter_color t = filter_color p \<and>
            last_filter_type t = filter_type p \<or> same_batch p t"
    by blast
  have need: "flush_needed q t"
    by (rule differs_needs_flush [OF diff fields])
  have "flush_count ((adopt q (draw_textures_flush E t))
      \<lparr>bufSize := 2, buffer := (buffer t)[0 := first_triangle E q, 1 := second_triangle E q]\<rparr>) =
      flush_count t + 1"
    by (simp add: flush_count_flush)
  then show "\<exists>t u. draw_textures_item E p s = Some t \<and> draw_textures_item E q t = Some u \<and>
           flush_count u = flush_count t + 1"
    using t(1) item_with_flush [OF cq need t(2), of E] by simp
qed

theorem same_state_submits_witness:
  "0 \<le> bufSize example_batch \<and>
   appended [example_item, dropped_item, example_item] = 2 \<and>
   bufSize example_batch + 2 * int (appended [example_item, dropped_item, example_item])
     < MAX_BUFFER_SIZE \<and>
   \<not> degenerate (clip example_item) \<and> same_batch example_item example_batch \<and>
   degenerate (clip dropped_item) \<and> \<not> same_batch dropped_item example_batch \<and>
   draw_items example_env [example_item, dropped_item, example_item] example_batch \<noteq> None \<and>
   flush_count (the (draw_items example_env [example_item, dropped_item, example_item]
     example_batch)) = 1 \<and>
   bufSize (the (draw_items example_env [example_item, dropped_item, example_item]
     example_batch)) = 6 \<and>
   \<not> degenerate (clip (example_item\<lparr>name := 8\<rparr>)) \<and>
   tuple_differs example_item (example_item\<lparr>name := 8\<rparr>) \<and>
   draw_textures_item example_env (example_item\<lparr>name := 8\<rparr>) example_batch \<noteq> None \<and>
   flush_count (the (draw_textures_item example_env (example_item\<lparr>name := 8\<rparr>) example_batch)) = 2"
proof -
  let ?q = "example_item\<lparr>name := 8\<rparr>"
  let ?qs = "[example_item, dropped_item, example_item]"
  have one: "flush_count example_batch = 1" and two: "bufSize example_batch = 2"
    by (simp_all add: flush_count_def example_batch_fields)
  have dropped: "degenerate (clip dropped_item)"
    by (simp add: dropped_item_def degenerate_def float_eq_def)
  have other: "\<not> same_batch dropped_item example_batch"
    by (simp add: same_batch_def dropped_item_def example_batch_fields)
  have count: "appended ?qs = 2"
    using example_clip dropped by simp
  have room: "bufSize example_batch + 2 * int (appended ?qs) < MAX_BUFFER_SIZE"
    by (simp only: count two) (simp add: MAX_BUFFER_SIZE_def)
  have all: "\<forall>q\<in>set ?qs. degenerate (clip q) \<or> same_batch q example_batch"
    using dropped example_same_batch by simp
  have clip: "\<not> degenerate (clip ?q)"
    using example_clip by simp
  have diff: "tuple_differs example_item ?q"
    by (simp add: tuple_differs_def example_item_def)
  have start: "0 \<le> bufSize init_statics"
    by (simp add: init_statics_def)
  note thm1 = same_state_submits [where s = example_batch and qs = ?qs and p = example_item
      and q = ?q and E = example_env]
  note thm2 = same_state_submits [where s = init_statics and qs = "[]" and p = example_item
      and q = ?q and E = example_env]
  from thm1 room all two obtain t
    where "draw_items example_env ?qs example_batch = Some t"
      and "flush_count t = flush_count example_batch"
      and "bufSize t = bufSize example_batch + 2 * int (appended ?qs)"
    by auto
  moreover from thm2 start example_clip clip diff obtain u
    where "draw_textures_item example_env ?q example_batch = Some u"
      and "flush_count u = flush_count example_batch + 1"
    by (auto simp: example_batch_reached)
  ultimately show ?thesis
    using one two count room example_clip example_same_batch dropped other clip diff
    by (simp only:) simp
qed

end
